theory Spec2Isabelle
  imports Main
begin

section \<open>The authentication hook \<open>useAuth\<close> (client/src/hooks/useAuth.ts)\<close>

text \<open>
  The hook sequences calls to external collaborators (the Google popup, the injected wallet
  provider, the authentication service, the signer) and reacts with side effects
  (toasts, console output, \<open>dispatch(setUser(...))\<close>, \<open>navigate\<close>). The collaborators'
  answers are the fields of an environment; a run of one of the hook's functions is the
  chronological list of the effects it performs. An exception of the source is a branch
  of the model: every \<open>try\<close>/\<open>catch\<close> of the source is a case distinction here.
\<close>

subsection \<open>Data\<close>

text \<open>The argument of \<open>setUser\<close>: \<open>{user: {name, avatar, walletAddress?}, token}\<close>.\<close>

record user_info =
  name :: string
  avatar :: string
  walletAddress :: "string option"

record set_user_payload =
  user :: user_info
  token :: string

text \<open>\<open>toast.success\<close>, \<open>toast.error\<close>, \<open>toast.warn\<close>, \<open>toast.info\<close>.\<close>

datatype severity = ToastSuccess | ToastError | ToastWarn | ToastInfo

text \<open>
  The effects, in the order the source performs them. \<open>ConsoleLog\<close> and \<open>ConsoleError\<close>
  carry the first argument of the call; \<open>Toast\<close> carries the severity and the message (the
  display options are left out); \<open>AxiosPost\<close> carries the URL and the JSON body as the list
  of its keys and values; \<open>SetTimeoutNavigate d r\<close> is \<open>setTimeout(() => navigate(r), d)\<close>.
\<close>

datatype event =
    ConsoleLog string
  | ConsoleError string
  | Toast severity string
  | SignInWithPopup
  | EthRequestAccounts
  | SetIsWalletConnected bool
  | AxiosPost string "(string \<times> string) list"
  | SignerSignMessage string
  | Dispatch set_user_payload
  | Navigate string
  | SetTimeoutNavigate nat string

text \<open>What \<open>signInWithPopup\<close> resolves to (\<open>result.user\<close>, \<open>credential?.accessToken\<close>)
  or rejects with (\<open>err.code\<close>, \<open>err.message\<close>).\<close>

record firebase_user =
  displayName :: "string option"
  photoURL :: "string option"

record popup_result =
  accessToken :: "string option"
  result_user :: firebase_user

record firebase_error =
  err_code :: string
  err_message :: string

text \<open>What \<open>axios.post\<close> rejects with: \<open>err.response.data\<close> when there is a response,
  and \<open>err.message\<close>.\<close>

record axios_error =
  response_data :: "string option"
  error_message :: string

text \<open>\<open>window.ethereum\<close>: whether \<open>request\<close> is defined, and what
  \<open>request({method: "eth_requestAccounts"})\<close> resolves to (\<open>Inr\<close>, the accounts) or rejects
  with (\<open>Inl\<close>).\<close>

record provider =
  request_defined :: bool
  eth_requestAccounts :: "string + string list"

text \<open>
  The environment of one run. \<open>getAddress\<close> is \<open>ethers.utils.getAddress\<close> (\<open>None\<close>: it
  throws); \<open>post_message\<close> and \<open>post_verify\<close> are the authentication service
  behind \<open>axios.post\<close> (\<open>Inl\<close>: the request fails, which for axios includes every
  response outside 2xx; \<open>Inr\<close>: \<open>response.data\<close>, for the verify endpoint the field
  \<open>success\<close> of it); \<open>signer_signMessage\<close> is the wallet's signer.
\<close>

record env =
  signInWithPopup :: "firebase_error + popup_result"
  ethereum :: "provider option"
  getAddress :: "string \<Rightarrow> string option"
  location_hostname :: string
  location_origin :: string
  post_message :: "(string \<times> string) list \<Rightarrow> axios_error + string"
  signer_signMessage :: "string \<Rightarrow> string + string"
  post_verify :: "(string \<times> string) list \<Rightarrow> string + bool"

subsection \<open>Constants and JavaScript idioms\<close>

definition METAMASK_BACKEND_URL :: string where
  "METAMASK_BACKEND_URL = ''http://localhost:3001/metamask''"

definition CLIENT_URL :: string where
  "CLIENT_URL = ''http://localhost:3000''"

text \<open>\<open>v || d\<close> on a string that may be \<open>null\<close>/\<open>undefined\<close>: the empty string is falsy.\<close>

definition or_default :: "string option \<Rightarrow> string \<Rightarrow> string" where
  "or_default v d = (case v of None \<Rightarrow> d | Some s \<Rightarrow> if s = [] then d else s)"

text \<open>\<open>!v\<close> on such a value: \<open>truthy v = None\<close> when \<open>!v\<close> holds.\<close>

definition truthy :: "string option \<Rightarrow> string option" where
  "truthy v = (case v of None \<Rightarrow> None | Some s \<Rightarrow> if s = [] then None else Some s)"

text \<open>\<open>window.ethereum && typeof window.ethereum.request !== "undefined"\<close>.\<close>

definition wallet_provider :: "env \<Rightarrow> provider option" where
  "wallet_provider e =
     (case ethereum e of
        None \<Rightarrow> None
      | Some p \<Rightarrow> if request_defined p then Some p else None)"

text \<open>\<open>const [userAddress] = accounts; ethers.utils.getAddress(userAddress)\<close>: on an empty
  array \<open>userAddress\<close> is \<open>undefined\<close> and \<open>getAddress\<close> throws.\<close>

definition address_of_accounts :: "env \<Rightarrow> string list \<Rightarrow> string option" where
  "address_of_accounts e accounts =
     (case accounts of [] \<Rightarrow> None | userAddress # _ \<Rightarrow> getAddress e userAddress)"

subsection \<open>The functions of the hook\<close>

text \<open>The \<open>setUser\<close> payload of the federated branches (lines 57-68, 77-88, 102-113).\<close>

definition google_session :: "firebase_user \<Rightarrow> string option \<Rightarrow> string \<Rightarrow> set_user_payload" where
  "google_session u w t =
     \<lparr>user = \<lparr>name = or_default (displayName u) ''User'',
              avatar = or_default (photoURL u)
                         ''https://cdn-icons-png.flaticon.com/128/3177/3177440.png'',
              walletAddress = w\<rparr>,
      token = t\<rparr>"

definition handleGoogleAuth :: "env \<Rightarrow> event list" where
  "handleGoogleAuth e =
     [ConsoleLog ''Google Auth Provider initialized'', SignInWithPopup] @
     (case signInWithPopup e of
        Inl err \<Rightarrow>
          [ConsoleError ''Google authentication failed:'',
           (if err_code err = ''auth/popup-closed-by-user''
              then Toast ToastInfo ''Sign-in was cancelled''
            else if err_code err = ''auth/network-request-failed''
              then Toast ToastError ''Network error. Please check your connection.''
            else Toast ToastError (''Authentication failed: '' @ err_message err))]
      | Inr result \<Rightarrow>
          (case truthy (accessToken result) of
             None \<Rightarrow> [Toast ToastError ''Failed to get authentication token'']
           | Some tok \<Rightarrow>
               ConsoleLog ''Google sign-in successful:'' #
               (case wallet_provider e of
                  None \<Rightarrow>
                    [Toast ToastWarn
                       ''MetaMask is not installed. Continuing without wallet connection.'',
                     Dispatch (google_session (result_user result) None tok),
                     Navigate ''/home'']
                | Some p \<Rightarrow>
                    (let walletError =
                           [ConsoleError ''Wallet connection failed:'',
                            Toast ToastError ''Failed to connect wallet. Please try again.'',
                            Dispatch (google_session (result_user result) None tok),
                            Navigate ''/home'']
                     in case eth_requestAccounts p of
                          Inl rejected \<Rightarrow> EthRequestAccounts # walletError
                        | Inr accounts \<Rightarrow>
                            (case address_of_accounts e accounts of
                               None \<Rightarrow>
                                 [EthRequestAccounts, SetIsWalletConnected True] @ walletError
                             | Some address \<Rightarrow>
                                 [EthRequestAccounts, SetIsWalletConnected True,
                                  Dispatch (google_session (result_user result)
                                              (Some address) tok),
                                  Toast ToastSuccess
                                    ''Successfully authenticated with Google and MetaMask!'',
                                  Navigate ''/home''])))))"

text \<open>The JSON body of the challenge request (lines 166-170); \<open>getSiweMessage\<close> returns
  \<open>response.data\<close>, or nothing after a failed request.\<close>

definition challenge_body :: "env \<Rightarrow> string \<Rightarrow> (string \<times> string) list" where
  "challenge_body e address =
     [(''address'', address),
      (''domain'', or_default (Some (location_hostname e)) ''localhost''),
      (''uri'', or_default (Some (location_origin e)) CLIENT_URL)]"

definition getSiweMessage :: "env \<Rightarrow> string \<Rightarrow> event list \<times> string option" where
  "getSiweMessage e address =
     (let body = challenge_body e address;
          request = AxiosPost (METAMASK_BACKEND_URL @ ''/message'') body
      in case post_message e body of
           Inr data \<Rightarrow> ([request], Some data)
         | Inl err \<Rightarrow>
             ([request,
               Toast ToastError ''Failed to authenticate with MetaMask. Please try again.'',
               (case response_data err of
                  Some d \<Rightarrow> ConsoleError d
                | None \<Rightarrow> ConsoleError ''Error fetching SIWE message:'')],
              None))"

text \<open>\<open>signMessage\<close> returns the signature, or nothing when the provider or the signer
  throws; \<open>SignerSignMessage\<close> marks the attempt.\<close>

definition signMessage :: "env \<Rightarrow> string \<Rightarrow> event list \<times> string option" where
  "signMessage e message =
     (case signer_signMessage e message of
        Inr signature \<Rightarrow> ([SignerSignMessage message], Some signature)
      | Inl err \<Rightarrow>
          ([SignerSignMessage message,
            ConsoleError ''Failed to sign message:'',
            Toast ToastError ''Failed to sign message. Please try again.''],
           None))"

text \<open>The JSON body of the verify request (lines 214-217), and the function.\<close>

definition verify_body :: "string \<Rightarrow> string \<Rightarrow> (string \<times> string) list" where
  "verify_body message signature = [(''message'', message), (''signature'', signature)]"

definition verifySignature :: "env \<Rightarrow> string \<Rightarrow> string \<Rightarrow> string \<Rightarrow> event list" where
  "verifySignature e address message signature =
     (let body = verify_body message signature;
          request = AxiosPost (METAMASK_BACKEND_URL @ ''/verify'') body
      in case post_verify e body of
           Inr success \<Rightarrow>
             (if success then
                [request,
                 Toast ToastSuccess ''Successfully authenticated with MetaMask!'',
                 Dispatch \<lparr>user = \<lparr>name = ''Anonymous'',
                                   avatar = ''https://cdn-icons-png.flaticon.com/128/10/10960.png'',
                                   walletAddress = Some address\<rparr>,
                           token = ''jadfkklakssl''\<rparr>,
                 SetTimeoutNavigate 2000 ''/home'']
              else [request, Toast ToastError ''Authentication failed!''])
         | Inl err \<Rightarrow>
             [request,
              ConsoleError ''Verification failed:'',
              Toast ToastError ''Verification failed. Please try again.''])"

definition handleMetaMaskLogin :: "env \<Rightarrow> string \<Rightarrow> event list" where
  "handleMetaMaskLogin e address =
     (let loginFailed =
            [ConsoleError ''Login failed:'',
             Toast ToastError ''MetaMask login failed. Please try again.'']
      in case getSiweMessage e address of
           (evs1, m) \<Rightarrow>
             (case truthy m of
                None \<Rightarrow> evs1 @ loginFailed
              | Some message \<Rightarrow>
                  (case signMessage e message of
                     (evs2, s) \<Rightarrow>
                       (case truthy s of
                          None \<Rightarrow> evs1 @ evs2 @ loginFailed
                        | Some signature \<Rightarrow>
                            evs1 @ evs2 @ verifySignature e address message signature))))"

definition connectWallet :: "env \<Rightarrow> event list" where
  "connectWallet e =
     (case wallet_provider e of
        None \<Rightarrow>
          [Toast ToastWarn
             ''MetaMask is not installed. Please install MetaMask to sign-up successfully.'']
      | Some p \<Rightarrow>
          (let connectFailed =
                 [ConsoleError ''Failed to connect MetaMask and login:'',
                  Toast ToastError ''Failed to connect wallet. Please try again.'']
           in case eth_requestAccounts p of
                Inl rejected \<Rightarrow> EthRequestAccounts # connectFailed
              | Inr accounts \<Rightarrow>
                  (case address_of_accounts e accounts of
                     None \<Rightarrow> [EthRequestAccounts, SetIsWalletConnected True] @ connectFailed
                   | Some address \<Rightarrow>
                       [EthRequestAccounts, SetIsWalletConnected True] @
                       handleMetaMaskLogin e address)))"

subsection \<open>Observations on a run\<close>

text \<open>The session records published by \<open>dispatch(setUser(...))\<close>, in order.\<close>

fun published :: "event list \<Rightarrow> set_user_payload list" where
  "published [] = []"
| "published (Dispatch p # evs) = p # published evs"
| "published (_ # evs) = published evs"

text \<open>The notifications sent to the toast sink, in order.\<close>

fun toasts :: "event list \<Rightarrow> (severity \<times> string) list" where
  "toasts [] = []"
| "toasts (Toast s m # evs) = (s, m) # toasts evs"
| "toasts (_ # evs) = toasts evs"

text \<open>The routes navigated to, at once or from a timer.\<close>

fun navigations :: "event list \<Rightarrow> string list" where
  "navigations [] = []"
| "navigations (Navigate r # evs) = r # navigations evs"
| "navigations (SetTimeoutNavigate d r # evs) = r # navigations evs"
| "navigations (_ # evs) = navigations evs"

text \<open>The messages handed to the signer.\<close>

fun signing_attempts :: "event list \<Rightarrow> string list" where
  "signing_attempts [] = []"
| "signing_attempts (SignerSignMessage m # evs) = m # signing_attempts evs"
| "signing_attempts (_ # evs) = signing_attempts evs"

text \<open>The HTTP requests, in order.\<close>

fun requests :: "event list \<Rightarrow> (string \<times> (string \<times> string) list) list" where
  "requests [] = []"
| "requests (AxiosPost url body # evs) = (url, body) # requests evs"
| "requests (_ # evs) = requests evs"

text \<open>The values given to \<open>setIsWalletConnected\<close>.\<close>

fun wallet_flags :: "event list \<Rightarrow> bool list" where
  "wallet_flags [] = []"
| "wallet_flags (SetIsWalletConnected b # evs) = b # wallet_flags evs"
| "wallet_flags (_ # evs) = wallet_flags evs"

text \<open>\<open>navigation_guarded pub evs\<close>: every navigation of \<open>evs\<close> comes after a publication
  (\<open>pub\<close>: one has already happened).\<close>

fun navigation_guarded :: "bool \<Rightarrow> event list \<Rightarrow> bool" where
  "navigation_guarded pub [] = True"
| "navigation_guarded pub (Dispatch p # evs) = navigation_guarded True evs"
| "navigation_guarded pub (Navigate r # evs) = (pub \<and> navigation_guarded pub evs)"
| "navigation_guarded pub (SetTimeoutNavigate d r # evs) = (pub \<and> navigation_guarded pub evs)"
| "navigation_guarded pub (_ # evs) = navigation_guarded pub evs"

text \<open>\<open>wallet_publication_verified e ok evs\<close>: every published record of \<open>evs\<close> that carries
  a wallet address comes after a request to the verify endpoint that the service of \<open>e\<close>
  answered with \<open>success: true\<close> (\<open>ok\<close>: such a request has already happened).\<close>

fun wallet_publication_verified :: "env \<Rightarrow> bool \<Rightarrow> event list \<Rightarrow> bool" where
  "wallet_publication_verified e ok [] = True"
| "wallet_publication_verified e ok (AxiosPost url body # evs) =
     wallet_publication_verified e
       (if url = METAMASK_BACKEND_URL @ ''/verify'' \<and> post_verify e body = Inr True
        then True else ok) evs"
| "wallet_publication_verified e ok (Dispatch p # evs) =
     (case walletAddress (user p) of
        None \<Rightarrow> wallet_publication_verified e ok evs
      | Some a \<Rightarrow> ok \<and> wallet_publication_verified e ok evs)"
| "wallet_publication_verified e ok (_ # evs) = wallet_publication_verified e ok evs"

text \<open>The wallet step of the combined flow cannot proceed: there is no usable provider,
  the account request is rejected, or no normalised address comes out of its answer.\<close>

definition wallet_step_fails :: "env \<Rightarrow> bool" where
  "wallet_step_fails e =
     (case wallet_provider e of
        None \<Rightarrow> True
      | Some p \<Rightarrow>
          (case eth_requestAccounts p of
             Inl rejected \<Rightarrow> True
           | Inr accounts \<Rightarrow> address_of_accounts e accounts = None))"

subsection \<open>Concrete environments\<close>

text \<open>A run in which every collaborator succeeds: a Google account with a name and a photo, a
  wallet with one account, a service that issues a challenge and accepts the signature.\<close>

definition happy_env :: env where
  "happy_env =
     \<lparr>signInWithPopup =
        Inr \<lparr>accessToken = Some ''ya29.a0'',
             result_user = \<lparr>displayName = Some ''Ada'', photoURL = Some ''https://p/ada.png''\<rparr>\<rparr>,
      ethereum = Some \<lparr>request_defined = True, eth_requestAccounts = Inr [''0x5aaeb6053f3e94c9b9a09f33669435e7ef1beaed'']\<rparr>,
      getAddress =
        (\<lambda>a. if a = ''0x5aaeb6053f3e94c9b9a09f33669435e7ef1beaed''
             then Some ''0x5aAeb6053F3E94C9b9A09f33669435E7Ef1BeAed'' else None),
      location_hostname = ''localhost'',
      location_origin = ''http://localhost:3000'',
      post_message = (\<lambda>body. Inr ''Sign in, nonce 5a1''),
      signer_signMessage = (\<lambda>m. Inr ''0x8f3c''),
      post_verify = (\<lambda>body. Inr True)\<rparr>"

text \<open>The same run with a verifier that answers \<open>{success: false}\<close>.\<close>

definition denied_env :: env where
  "denied_env = happy_env\<lparr>post_verify := (\<lambda>body. Inr False)\<rparr>"

text \<open>The same run with a challenge request that fails without a response.\<close>

definition offline_env :: env where
  "offline_env =
     happy_env\<lparr>post_message :=
       (\<lambda>body. Inl \<lparr>response_data = None, error_message = ''Network Error''\<rparr>)\<rparr>"

text \<open>The same run without an injected wallet, and with a user who declines the
  account-access prompt.\<close>

definition no_wallet_env :: env where
  "no_wallet_env = happy_env\<lparr>ethereum := None\<rparr>"

definition declined_env :: env where
  "declined_env =
     happy_env\<lparr>ethereum :=
       Some \<lparr>request_defined = True, eth_requestAccounts = Inl ''User rejected the request.''\<rparr>\<rparr>"

text \<open>The same run with a Google popup that the user closes.\<close>

definition popup_closed_env :: env where
  "popup_closed_env =
     happy_env\<lparr>signInWithPopup :=
       Inl \<lparr>err_code = ''auth/popup-closed-by-user'', err_message = ''Firebase: Error''\<rparr>\<rparr>"

section \<open>Checksum normalisation of a wallet address\<close>

text \<open>
  The Wallet Connector normalises an address with \<open>ethers.utils.getAddress\<close>, a library
  function whose code is not among the sources; in the flows above it is the parameter
  \<open>getAddress\<close>. The spec describes its result as the "canonical checksummed form", the
  "mixed-case checksummed textual form" of a 20-byte identifier, a "mixed-case textual
  encoding of a wallet address used to detect transcription errors". The definitions of
  this section follow that description: an address is 40 hexadecimal digits, with or
  without the prefix \<open>0x\<close>; its canonical form is the prefix followed by the digits in
  lower case, of which a checksum of the lower-case digits says which are raised to upper
  case; a mixed-case input whose letters do not have the case the checksum asks for is
  rejected. The checksum itself is a parameter \<open>digest\<close>: \<open>digest low i\<close> holds when digit
  \<open>i\<close> of the lower-case digits \<open>low\<close> is to be raised.
\<close>

text \<open>Modelled from the spec: the characters of the textual form of an address,
  the hexadecimal digits in either case (\<open>ethers.utils.getAddress\<close> is not among the
  sources).\<close>

definition is_hex :: "char \<Rightarrow> bool" where
  "is_hex c = (c \<in> set ''0123456789abcdefABCDEF'')"

text \<open>Modelled from the spec: the lower-case form of a character of an address; only the
  letters \<open>A\<close> to \<open>F\<close> have one that differs (the case conversion of
  \<open>ethers.utils.getAddress\<close> is not among the sources).\<close>

definition lower_hex :: "char \<Rightarrow> char" where
  "lower_hex c =
     (if c = CHR ''A'' then CHR ''a'' else if c = CHR ''B'' then CHR ''b''
      else if c = CHR ''C'' then CHR ''c'' else if c = CHR ''D'' then CHR ''d''
      else if c = CHR ''E'' then CHR ''e'' else if c = CHR ''F'' then CHR ''f'' else c)"

text \<open>Modelled from the spec: the upper-case form of a character of an address; only the
  letters \<open>a\<close> to \<open>f\<close> have one that differs (the case conversion of
  \<open>ethers.utils.getAddress\<close> is not among the sources).\<close>

definition upper_hex :: "char \<Rightarrow> char" where
  "upper_hex c =
     (if c = CHR ''a'' then CHR ''A'' else if c = CHR ''b'' then CHR ''B''
      else if c = CHR ''c'' then CHR ''C'' else if c = CHR ''d'' then CHR ''D''
      else if c = CHR ''e'' then CHR ''E'' else if c = CHR ''f'' then CHR ''F'' else c)"

text \<open>Modelled from the spec: "mixed-case" text has a lower-case and an upper-case letter
  (the test of \<open>ethers.utils.getAddress\<close> for a checksummed input is not among the
  sources).\<close>

definition mixed_case :: "string \<Rightarrow> bool" where
  "mixed_case s =
     (list_ex (\<lambda>c. c \<in> set ''abcdef'') s \<and> list_ex (\<lambda>c. c \<in> set ''ABCDEF'') s)"

text \<open>Modelled from the spec: the "mixed-case checksummed" digits, from position \<open>i\<close> on:
  the lower-case digits of which those that the checksum selects are raised (the checksum
  loop of \<open>ethers.utils.getAddress\<close> is not among the sources).\<close>

fun apply_checksum :: "(nat \<Rightarrow> bool) \<Rightarrow> nat \<Rightarrow> string \<Rightarrow> string" where
  "apply_checksum raised i [] = []"
| "apply_checksum raised i (c # cs) =
     (if raised i then upper_hex c else c) # apply_checksum raised (Suc i) cs"

text \<open>Modelled from the spec: the "canonical checksummed form" of 40 digits, the prefix
  \<open>0x\<close> and the checksummed lower-case digits (the checksum of
  \<open>ethers.utils.getAddress\<close> is not among the sources; \<open>digest\<close> stands for it).\<close>

definition checksummed :: "(string \<Rightarrow> nat \<Rightarrow> bool) \<Rightarrow> string \<Rightarrow> string" where
  "checksummed digest hex =
     ''0x'' @ apply_checksum (digest (map lower_hex hex)) 0 (map lower_hex hex)"

text \<open>Modelled from the spec: the normalisation of the Wallet Connector,
  \<open>ethers.utils.getAddress\<close>, which is not among the sources. \<open>None\<close>: the text is not a
  valid address (not 40 hexadecimal digits after the optional prefix, or mixed-case with
  a case the checksum does not ask for, the "transcription error" the form detects).\<close>

definition normalize_address :: "(string \<Rightarrow> nat \<Rightarrow> bool) \<Rightarrow> string \<Rightarrow> string option" where
  "normalize_address digest a =
     (let hex = (if take 2 a = ''0x'' then drop 2 a else a)
      in if length hex = 40 \<and> list_all is_hex hex then
           (if mixed_case hex \<and> checksummed digest hex \<noteq> ''0x'' @ hex then None
            else Some (checksummed digest hex))
         else None)"

text \<open>A checksum for examples: the digits at even positions are raised.\<close>

definition even_digest :: "string \<Rightarrow> nat \<Rightarrow> bool" where
  "even_digest low i = (i mod 2 = 0)"

section \<open>Properties of the flows\<close>

lemmas flow_defs = handleGoogleAuth_def connectWallet_def handleMetaMaskLogin_def
  getSiweMessage_def signMessage_def verifySignature_def wallet_provider_def
  address_of_accounts_def truthy_def google_session_def

lemmas env_defs = happy_env_def denied_env_def offline_env_def no_wallet_env_def
  declined_env_def popup_closed_env_def

subsection \<open>Verification before publication\<close>

text \<open>
  In the wallet-only flow a record is dispatched by \<open>verifySignature\<close> alone, in the
  branch \<open>response.data.success\<close>: whatever the collaborators answer, a published wallet
  address comes after a positive verdict of the verify endpoint.
\<close>

lemma connectWallet_publication_verified:
  "wallet_publication_verified e False (connectWallet e)"
  by (simp add: flow_defs Let_def verify_body_def
      split: option.split sum.split list.split prod.split)

text \<open>
  Claim C1: every published session record that carries a wallet address was preceded by a
  \<open>{success: true}\<close> answer of the verify endpoint. The combined flow does not keep this:
  in the run below Google sign-in succeeds and the wallet grants account access; the record
  is published with the wallet address although no request was sent to the service and
  nothing was signed.
\<close>

theorem combined_flow_publishes_unverified_address:
  "published (handleGoogleAuth happy_env) =
     [\<lparr>user = \<lparr>name = ''Ada'',
               avatar = ''https://p/ada.png'',
               walletAddress = Some ''0x5aAeb6053F3E94C9b9A09f33669435E7Ef1BeAed''\<rparr>,
       token = ''ya29.a0''\<rparr>]
   \<and> requests (handleGoogleAuth happy_env) = []
   \<and> signing_attempts (handleGoogleAuth happy_env) = []
   \<and> \<not> wallet_publication_verified happy_env False (handleGoogleAuth happy_env)"
  by (simp add: flow_defs happy_env_def or_default_def)

subsection \<open>The combined flow\<close>

text \<open>
  Claim C2: in the combined flow, when Google sign-in yields a token and the wallet yields
  an account that normalises to \<open>address\<close>, exactly one record is published; it carries
  the Google display name and photo (a missing or empty one is replaced by the default of
  the source), the Google token and the wallet address. The source runs no verification
  in this flow, so the statement needs no hypothesis about the verifier and holds in
  particular when the verifier would accept.
\<close>

theorem combined_flow_publishes_merged_record:
  assumes "signInWithPopup e = Inr result"
    and "accessToken result = Some tok" and "tok \<noteq> []"
    and "ethereum e = Some p" and "request_defined p"
    and "eth_requestAccounts p = Inr (userAddress # others)"
    and "getAddress e userAddress = Some address"
  shows "published (handleGoogleAuth e) =
           [\<lparr>user = \<lparr>name = or_default (displayName (result_user result)) ''User'',
                     avatar = or_default (photoURL (result_user result))
                                ''https://cdn-icons-png.flaticon.com/128/3177/3177440.png'',
                     walletAddress = Some address\<rparr>,
             token = tok\<rparr>]"
  using assms by (simp add: flow_defs)

theorem combined_flow_publishes_merged_record_witness:
  "published (handleGoogleAuth happy_env) =
     [\<lparr>user = \<lparr>name = ''Ada'',
               avatar = ''https://p/ada.png'',
               walletAddress = Some ''0x5aAeb6053F3E94C9b9A09f33669435E7Ef1BeAed''\<rparr>,
       token = ''ya29.a0''\<rparr>]"
  using combined_flow_publishes_merged_record
    [of happy_env
        "\<lparr>accessToken = Some ''ya29.a0'',
          result_user = \<lparr>displayName = Some ''Ada'', photoURL = Some ''https://p/ada.png''\<rparr>\<rparr>"
        "''ya29.a0''"
        "\<lparr>request_defined = True,
          eth_requestAccounts = Inr [''0x5aaeb6053f3e94c9b9a09f33669435e7ef1beaed'']\<rparr>"
        "''0x5aaeb6053f3e94c9b9a09f33669435e7ef1beaed''" "[]"
        "''0x5aAeb6053F3E94C9b9A09f33669435E7Ef1BeAed''"]
  by (simp add: happy_env_def or_default_def)

text \<open>
  Claim C6: in the combined flow, when Google sign-in yields a token and the wallet step
  cannot proceed (no provider, a declined account request, or any other failure before an
  address is obtained), exactly one record is published, with the Google name, photo and
  token and no wallet address, and the flow navigates to \<open>/home\<close>. The wallet failure is
  notified as a warning when the provider is absent and as a wallet-connection error
  otherwise; it does not stop the flow. What is published and where the flow navigates
  is the same as in any run with the same Google result and no wallet provider.
\<close>

theorem combined_flow_wallet_failure_keeps_federated_session:
  assumes "signInWithPopup e = Inr result"
    and "accessToken result = Some tok" and "tok \<noteq> []"
    and "wallet_step_fails e"
  shows "published (handleGoogleAuth e) =
           [\<lparr>user = \<lparr>name = or_default (displayName (result_user result)) ''User'',
                     avatar = or_default (photoURL (result_user result))
                                ''https://cdn-icons-png.flaticon.com/128/3177/3177440.png'',
                     walletAddress = None\<rparr>,
             token = tok\<rparr>]
         \<and> navigations (handleGoogleAuth e) = [''/home'']
         \<and> last (handleGoogleAuth e) = Navigate ''/home''
         \<and> toasts (handleGoogleAuth e) =
             [case wallet_provider e of
                None \<Rightarrow>
                  (ToastWarn, ''MetaMask is not installed. Continuing without wallet connection.'')
              | Some p \<Rightarrow> (ToastError, ''Failed to connect wallet. Please try again.'')]
         \<and> (\<forall>e'. signInWithPopup e' = signInWithPopup e \<and> wallet_provider e' = None \<longrightarrow>
                published (handleGoogleAuth e') = published (handleGoogleAuth e)
                \<and> navigations (handleGoogleAuth e') = navigations (handleGoogleAuth e))"
  using assms
  by (auto simp add: flow_defs wallet_step_fails_def split: option.splits sum.splits if_splits)

theorem combined_flow_wallet_failure_keeps_federated_session_witness:
  "published (handleGoogleAuth declined_env) =
     [\<lparr>user = \<lparr>name = ''Ada'', avatar = ''https://p/ada.png'', walletAddress = None\<rparr>,
       token = ''ya29.a0''\<rparr>]
   \<and> navigations (handleGoogleAuth declined_env) = [''/home'']
   \<and> toasts (handleGoogleAuth declined_env) =
       [(ToastError, ''Failed to connect wallet. Please try again.'')]
   \<and> published (handleGoogleAuth no_wallet_env) = published (handleGoogleAuth declined_env)
   \<and> navigations (handleGoogleAuth no_wallet_env) = navigations (handleGoogleAuth declined_env)"
proof -
  let ?result = "\<lparr>accessToken = Some ''ya29.a0'',
          result_user = \<lparr>displayName = Some ''Ada'', photoURL = Some ''https://p/ada.png''\<rparr>\<rparr>"
  have sign_in: "signInWithPopup declined_env = Inr ?result"
    by (simp add: env_defs)
  have fails: "wallet_step_fails declined_env"
    by (simp add: env_defs wallet_step_fails_def wallet_provider_def)
  have provider: "wallet_provider declined_env \<noteq> None"
    by (simp add: env_defs wallet_provider_def)
  have same: "signInWithPopup no_wallet_env = signInWithPopup declined_env
              \<and> wallet_provider no_wallet_env = None"
    by (simp add: env_defs wallet_provider_def)
  from combined_flow_wallet_failure_keeps_federated_session
         [of declined_env ?result "''ya29.a0''", OF sign_in _ _ fails] provider same
  show ?thesis
    by (auto simp add: or_default_def)
qed

text \<open>
  Claim C10: when the Google step of the combined flow fails (the popup rejects, whatever
  its error code, or the credential carries no access token), no record is published,
  nothing is navigated to, the wallet is not touched, no request is sent, and the sink
  receives exactly one notification, chosen by the cause of the failure.
\<close>

theorem federated_failure_publishes_nothing:
  assumes "signInWithPopup e = Inl err
           \<or> (signInWithPopup e = Inr result \<and> truthy (accessToken result) = None)"
  shows "published (handleGoogleAuth e) = []
         \<and> navigations (handleGoogleAuth e) = []
         \<and> wallet_flags (handleGoogleAuth e) = []
         \<and> requests (handleGoogleAuth e) = []
         \<and> toasts (handleGoogleAuth e) =
             [case signInWithPopup e of
                Inr r \<Rightarrow> (ToastError, ''Failed to get authentication token'')
              | Inl er \<Rightarrow>
                  if err_code er = ''auth/popup-closed-by-user''
                    then (ToastInfo, ''Sign-in was cancelled'')
                  else if err_code er = ''auth/network-request-failed''
                    then (ToastError, ''Network error. Please check your connection.'')
                  else (ToastError, ''Authentication failed: '' @ err_message er)]"
  using assms by (auto simp add: handleGoogleAuth_def)

theorem federated_failure_publishes_nothing_witness:
  "published (handleGoogleAuth popup_closed_env) = []
   \<and> navigations (handleGoogleAuth popup_closed_env) = []
   \<and> wallet_flags (handleGoogleAuth popup_closed_env) = []
   \<and> requests (handleGoogleAuth popup_closed_env) = []
   \<and> toasts (handleGoogleAuth popup_closed_env) = [(ToastInfo, ''Sign-in was cancelled'')]"
proof -
  have rejected: "signInWithPopup popup_closed_env =
      Inl \<lparr>err_code = ''auth/popup-closed-by-user'', err_message = ''Firebase: Error''\<rparr>"
    by (simp add: env_defs)
  from federated_failure_publishes_nothing [of popup_closed_env _ undefined, OF disjI1, OF rejected]
    rejected
  show ?thesis by simp
qed

subsection \<open>The wallet-only flow\<close>

text \<open>
  Claim C3: in the wallet-only flow, when the wallet yields an account that normalises to
  \<open>address\<close>, the service issues a challenge, the wallet signs it and the verifier answers
  \<open>{success: true}\<close>, exactly one record is published: the name \<open>Anonymous\<close>, the default
  avatar, the wallet address \<open>address\<close> and the placeholder token.
\<close>

theorem wallet_flow_publishes_verified_address:
  assumes "ethereum e = Some p" and "request_defined p"
    and "eth_requestAccounts p = Inr (userAddress # others)"
    and "getAddress e userAddress = Some address"
    and "post_message e (challenge_body e address) = Inr message" and "message \<noteq> []"
    and "signer_signMessage e message = Inr signature" and "signature \<noteq> []"
    and "post_verify e (verify_body message signature) = Inr True"
  shows "published (connectWallet e) =
           [\<lparr>user = \<lparr>name = ''Anonymous'',
                     avatar = ''https://cdn-icons-png.flaticon.com/128/10/10960.png'',
                     walletAddress = Some address\<rparr>,
             token = ''jadfkklakssl''\<rparr>]"
  using assms by (simp add: flow_defs)

theorem wallet_flow_publishes_verified_address_witness:
  "published (connectWallet happy_env) =
     [\<lparr>user = \<lparr>name = ''Anonymous'',
               avatar = ''https://cdn-icons-png.flaticon.com/128/10/10960.png'',
               walletAddress = Some ''0x5aAeb6053F3E94C9b9A09f33669435E7Ef1BeAed''\<rparr>,
       token = ''jadfkklakssl''\<rparr>]"
  using wallet_flow_publishes_verified_address
    [of happy_env
        "\<lparr>request_defined = True,
          eth_requestAccounts = Inr [''0x5aaeb6053f3e94c9b9a09f33669435e7ef1beaed'']\<rparr>"
        "''0x5aaeb6053f3e94c9b9a09f33669435e7ef1beaed''" "[]"
        "''0x5aAeb6053F3E94C9b9A09f33669435E7Ef1BeAed''"
        "''Sign in, nonce 5a1''" "''0x8f3c''"]
  by (simp add: happy_env_def)

text \<open>
  Claim C4: in the wallet-only flow, when the verifier answers \<open>{success: false}\<close>, the run
  is the one listed: it ends in the \<open>else\<close> branch of \<open>verifySignature\<close> with the
  notification \<open>Authentication failed!\<close>; no \<open>catch\<close> block is entered (no console error,
  no other notification), no record is published and nothing is navigated to.
\<close>

theorem wallet_flow_denied_publishes_nothing:
  assumes "ethereum e = Some p" and "request_defined p"
    and "eth_requestAccounts p = Inr (userAddress # others)"
    and "getAddress e userAddress = Some address"
    and "post_message e (challenge_body e address) = Inr message" and "message \<noteq> []"
    and "signer_signMessage e message = Inr signature" and "signature \<noteq> []"
    and "post_verify e (verify_body message signature) = Inr False"
  shows "connectWallet e =
           [EthRequestAccounts, SetIsWalletConnected True,
            AxiosPost (METAMASK_BACKEND_URL @ ''/message'') (challenge_body e address),
            SignerSignMessage message,
            AxiosPost (METAMASK_BACKEND_URL @ ''/verify'') (verify_body message signature),
            Toast ToastError ''Authentication failed!'']
         \<and> published (connectWallet e) = []
         \<and> navigations (connectWallet e) = []
         \<and> toasts (connectWallet e) = [(ToastError, ''Authentication failed!'')]"
  using assms by (simp add: flow_defs)

theorem wallet_flow_denied_publishes_nothing_witness:
  "published (connectWallet denied_env) = []
   \<and> navigations (connectWallet denied_env) = []
   \<and> toasts (connectWallet denied_env) = [(ToastError, ''Authentication failed!'')]"
  using wallet_flow_denied_publishes_nothing
    [of denied_env
        "\<lparr>request_defined = True,
          eth_requestAccounts = Inr [''0x5aaeb6053f3e94c9b9a09f33669435e7ef1beaed'']\<rparr>"
        "''0x5aaeb6053f3e94c9b9a09f33669435e7ef1beaed''" "[]"
        "''0x5aAeb6053F3E94C9b9A09f33669435E7Ef1BeAed''"
        "''Sign in, nonce 5a1''" "''0x8f3c''"]
  by (simp add: env_defs)

text \<open>
  Claim C5 says that a failed challenge request is reported to the notification sink
  exactly once. In the run below the request fails without a response: the sink receives
  two error notifications for the one failure, the first from the \<open>catch\<close> of
  \<open>getSiweMessage\<close> (line 179), the second from the \<open>catch\<close> of \<open>handleMetaMaskLogin\<close>
  (line 255), entered by its own \<open>throw new Error("Message generation failed")\<close>.
\<close>

theorem wallet_flow_challenge_failure_reported_twice:
  "toasts (connectWallet offline_env) =
     [(ToastError, ''Failed to authenticate with MetaMask. Please try again.''),
      (ToastError, ''MetaMask login failed. Please try again.'')]
   \<and> length (toasts (connectWallet offline_env)) \<noteq> 1"
  by (simp add: flow_defs env_defs)

text \<open>
  The orchestrator treats a rejected signature the same way: \<open>signMessage\<close> notifies its
  failure and returns nothing, and the guard \<open>if (!signature) throw ...\<close> of
  \<open>handleMetaMaskLogin\<close> adds the notification of the failed login.
\<close>

lemma wallet_flow_signing_failure_toasts:
  assumes "ethereum e = Some p" and "request_defined p"
    and "eth_requestAccounts p = Inr (userAddress # others)"
    and "getAddress e userAddress = Some address"
    and "post_message e (challenge_body e address) = Inr message" and "message \<noteq> []"
    and "signer_signMessage e message = Inl err"
  shows "toasts (connectWallet e) =
           [(ToastError, ''Failed to sign message. Please try again.''),
            (ToastError, ''MetaMask login failed. Please try again.'')]
         \<and> published (connectWallet e) = []"
  using assms by (simp add: flow_defs)

text \<open>
  Claim C5, as the code has it: in the wallet-only flow, when the challenge request fails,
  nothing is handed to the signer, no record is published and nothing is navigated to; the
  challenge request is the only request sent. The sink receives exactly two error
  notifications, in this order: the failure of the challenge request, from
  \<open>getSiweMessage\<close>, and the failure of the login, from \<open>handleMetaMaskLogin\<close>, which
  finds no message.
\<close>

theorem wallet_flow_challenge_failure:
  assumes "ethereum e = Some p" and "request_defined p"
    and "eth_requestAccounts p = Inr (userAddress # others)"
    and "getAddress e userAddress = Some address"
    and "post_message e (challenge_body e address) = Inl err"
  shows "signing_attempts (connectWallet e) = []
         \<and> published (connectWallet e) = []
         \<and> navigations (connectWallet e) = []
         \<and> requests (connectWallet e) =
             [(METAMASK_BACKEND_URL @ ''/message'', challenge_body e address)]
         \<and> toasts (connectWallet e) =
             [(ToastError, ''Failed to authenticate with MetaMask. Please try again.''),
              (ToastError, ''MetaMask login failed. Please try again.'')]"
  using assms by (simp add: flow_defs split: option.split)

theorem wallet_flow_challenge_failure_witness:
  "signing_attempts (connectWallet offline_env) = []
   \<and> published (connectWallet offline_env) = []
   \<and> navigations (connectWallet offline_env) = []
   \<and> requests (connectWallet offline_env) =
       [(''http://localhost:3001/metamask/message'',
         [(''address'', ''0x5aAeb6053F3E94C9b9A09f33669435E7Ef1BeAed''),
          (''domain'', ''localhost''),
          (''uri'', ''http://localhost:3000'')])]
   \<and> toasts (connectWallet offline_env) =
       [(ToastError, ''Failed to authenticate with MetaMask. Please try again.''),
        (ToastError, ''MetaMask login failed. Please try again.'')]"
  using wallet_flow_challenge_failure
    [of offline_env
        "\<lparr>request_defined = True,
          eth_requestAccounts = Inr [''0x5aaeb6053f3e94c9b9a09f33669435e7ef1beaed'']\<rparr>"
        "''0x5aaeb6053f3e94c9b9a09f33669435e7ef1beaed''" "[]"
        "''0x5aAeb6053F3E94C9b9A09f33669435E7Ef1BeAed''"
        "\<lparr>response_data = None, error_message = ''Network Error''\<rparr>"]
  by (simp add: env_defs challenge_body_def or_default_def METAMASK_BACKEND_URL_def)

subsection \<open>Both flows\<close>

text \<open>
  Claim C7: in a run of either flow, whatever the collaborators answer, every navigation
  (immediate or from the timer) comes after a record has been published.
\<close>

theorem navigation_only_after_publication:
  "navigation_guarded False (handleGoogleAuth e) \<and> navigation_guarded False (connectWallet e)"
  by (simp add: flow_defs Let_def split: option.split sum.split list.split prod.split)

theorem navigation_only_after_publication_witness:
  "navigation_guarded False (handleGoogleAuth happy_env)
   \<and> navigation_guarded False (connectWallet happy_env)
   \<and> navigations (handleGoogleAuth happy_env) = [''/home'']
   \<and> navigations (connectWallet happy_env) = [''/home'']"
  using navigation_only_after_publication [of happy_env]
  by (simp add: flow_defs challenge_body_def verify_body_def happy_env_def)

text \<open>
  Claim C8: the challenge request is one POST to \<open>/metamask/message\<close> whose body has the
  keys \<open>address\<close>, \<open>domain\<close>, \<open>uri\<close>, in this order and no other; the verify request is one
  POST to \<open>/metamask/verify\<close> whose body has the keys \<open>message\<close> and \<open>signature\<close> and no other:
  the address given to \<open>verifySignature\<close> is not sent.
\<close>

theorem request_bodies:
  "requests (fst (getSiweMessage e address)) =
     [(''http://localhost:3001/metamask/message'',
       [(''address'', address),
        (''domain'', or_default (Some (location_hostname e)) ''localhost''),
        (''uri'', or_default (Some (location_origin e)) ''http://localhost:3000'')])]
   \<and> requests (verifySignature e address message signature) =
     [(''http://localhost:3001/metamask/verify'',
       [(''message'', message), (''signature'', signature)])]"
  by (simp add: flow_defs challenge_body_def verify_body_def METAMASK_BACKEND_URL_def
      CLIENT_URL_def Let_def split: sum.split option.split)

theorem request_bodies_witness:
  "requests (fst (getSiweMessage happy_env ''0x5aAeb6053F3E94C9b9A09f33669435E7Ef1BeAed'')) =
     [(''http://localhost:3001/metamask/message'',
       [(''address'', ''0x5aAeb6053F3E94C9b9A09f33669435E7Ef1BeAed''),
        (''domain'', ''localhost''),
        (''uri'', ''http://localhost:3000'')])]
   \<and> requests (verifySignature happy_env ''0x5aAeb6053F3E94C9b9A09f33669435E7Ef1BeAed''
                 ''Sign in, nonce 5a1'' ''0x8f3c'') =
     [(''http://localhost:3001/metamask/verify'',
       [(''message'', ''Sign in, nonce 5a1''), (''signature'', ''0x8f3c'')])]"
  using request_bodies [of happy_env "''0x5aAeb6053F3E94C9b9A09f33669435E7Ef1BeAed''"
                           "''Sign in, nonce 5a1''" "''0x8f3c''"]
  by (simp add: happy_env_def or_default_def)

section \<open>Properties of the normalisation\<close>

lemma lower_hex_idem: "lower_hex (lower_hex c) = lower_hex c"
  by (simp add: lower_hex_def)

lemma lower_upper_hex: "lower_hex (upper_hex c) = lower_hex c"
  by (simp add: lower_hex_def upper_hex_def)

lemma is_hex_lower_hex: "is_hex c \<Longrightarrow> is_hex (lower_hex c)"
  by (auto simp add: is_hex_def lower_hex_def)

lemma is_hex_upper_hex: "is_hex c \<Longrightarrow> is_hex (upper_hex c)"
  by (auto simp add: is_hex_def upper_hex_def)

lemma length_apply_checksum: "length (apply_checksum raised i cs) = length cs"
  by (induction cs arbitrary: i) simp_all

text \<open>Raising letters does not change the lower-case form, whatever the checksum.\<close>

lemma lower_apply_checksum:
  "map lower_hex (apply_checksum raised i cs) = map lower_hex cs"
  by (induction cs arbitrary: i) (simp_all add: lower_upper_hex)

lemma is_hex_apply_checksum:
  "list_all is_hex cs \<Longrightarrow> list_all is_hex (apply_checksum raised i cs)"
  by (induction cs arbitrary: i) (simp_all add: is_hex_upper_hex)

text \<open>The digits of a checksummed form have that form as their checksummed form.\<close>

lemma checksummed_fixed:
  "checksummed digest (drop 2 (checksummed digest hex)) = checksummed digest hex"
proof -
  let ?low = "map lower_hex hex"
  let ?body = "apply_checksum (digest ?low) 0 ?low"
  have body: "drop 2 (checksummed digest hex) = ?body"
    by (simp add: checksummed_def numeral_2_eq_2)
  have "map lower_hex ?body = ?low"
    by (simp add: lower_apply_checksum lower_hex_idem)
  then have "checksummed digest ?body = ''0x'' @ ?body"
    by (simp add: checksummed_def)
  with body show ?thesis
    by (simp add: checksummed_def)
qed

text \<open>A mixed-case address whose case is not the one the checksum asks for is rejected.\<close>

lemma normalize_address_rejects_wrong_case:
  "normalize_address even_digest ''0x52908400098527886E0f7030069857d2e4169ee7'' = None"
  by code_simp

text \<open>
  Claim C9: normalisation is idempotent on valid addresses: when an address normalises to
  \<open>r\<close>, then \<open>r\<close> is a valid address and normalises to itself, whatever the checksum
  function is.
\<close>

theorem normalize_address_idempotent:
  assumes "normalize_address digest a = Some r"
  shows "normalize_address digest r = Some r"
proof -
  define hex where "hex = (if take 2 a = ''0x'' then drop 2 a else a)"
  from assms have len: "length hex = 40" and hexes: "list_all is_hex hex"
    and r: "r = checksummed digest hex"
    by (auto simp add: normalize_address_def hex_def Let_def split: if_splits)
  let ?body = "drop 2 r"
  have pre: "take 2 r = ''0x''"
    by (simp add: r checksummed_def numeral_2_eq_2)
  have r_body: "r = ''0x'' @ ?body"
    by (simp add: r checksummed_def numeral_2_eq_2)
  have len': "length ?body = 40"
    by (simp add: r checksummed_def length_apply_checksum len)
  have "list_all is_hex (map lower_hex hex)"
    using hexes by (simp add: list_all_iff is_hex_lower_hex)
  then have hexes': "list_all is_hex ?body"
    by (simp add: r checksummed_def numeral_2_eq_2 is_hex_apply_checksum)
  have fixed: "checksummed digest ?body = r"
    by (simp add: r checksummed_fixed)
  have "checksummed digest ?body = ''0x'' @ ?body"
    using fixed r_body by simp
  with pre len' hexes' fixed show ?thesis
    by (simp add: normalize_address_def)
qed

theorem normalize_address_idempotent_witness:
  "normalize_address even_digest ''52908400098527886e0f7030069857d2e4169ee7''
     = Some ''0x52908400098527886e0f7030069857D2E4169eE7''
   \<and> normalize_address even_digest ''0x52908400098527886e0f7030069857D2E4169eE7''
     = Some ''0x52908400098527886e0f7030069857D2E4169eE7''"
proof -
  have valid: "normalize_address even_digest ''52908400098527886e0f7030069857d2e4169ee7''
     = Some ''0x52908400098527886e0f7030069857D2E4169eE7''"
    by code_simp
  from valid normalize_address_idempotent [OF valid] show ?thesis by simp
qed

end
